theory Spec2Isabelle
  imports Main "HOL-Library.Word"
begin

section \<open>The deployment object of the contract API (base/Code.ts)\<close>

text \<open>
  The class \<open>Code\<close> holds a WASM code bundle and an ABI. It offers \<open>createBlueprint\<close>
  (store the code), a table \<open>tx\<close> with one entry per ABI constructor, and the private
  \<open>#instantiate\<close>, which dispatches to \<open>#instantiateSingle\<close> or \<open>#instantiateDual\<close>.
  Every call is returned together with a result transform that projects the events of
  the submission onto a Blueprint and a Contract handle.

  Exceptions are values of \<open>error\<close>; a function that can throw returns \<open>error + 'a\<close>.
  The \<open>decorateMethod\<close> callback is only handed on to the handles and never called
  here, so it is left out of the state.
\<close>

subsection \<open>Data\<close>

type_synonym u8a = "8 word list"

text \<open>An encoded value as the chain returns it in an event (a hash, an account id).\<close>

type_synonym Codec = u8a

datatype error =
    InvalidCodeBundle    \<comment> \<open>\<open>assert(isWasm(this.code), 'No WASM code provided')\<close>\<close>
  | ConstructorNotFound  \<comment> \<open>\<open>abi.findConstructor\<close> found nothing\<close>
  | EncodingFailure      \<comment> \<open>the codec refused the constructor arguments\<close>
  | TypeError            \<comment> \<open>a member of \<open>undefined\<close> was read\<close>
  | ReferenceError       \<comment> \<open>a name was read that the module neither imports nor declares\<close>

text \<open>\<open>Uint8Array | string | Buffer | null | undefined\<close>, the type of the \<open>wasm\<close> argument.\<close>

datatype U8aLike = FromU8a u8a | FromString string | Nullish

text \<open>
  The functions imported from the library \<open>@polkadot/util\<close>. They belong to another
  package, so they are parameters of the model: every theorem holds for any choice.
\<close>

record polkadot_util =
  isWasm :: "u8a \<Rightarrow> bool"
  compactAddLength :: "u8a \<Rightarrow> u8a"
  stringCamelCase :: "string \<Rightarrow> string"
  u8aToU8a :: "U8aLike \<Rightarrow> u8a"

text \<open>
  What the code reads of the connected runtime: whether \<open>api.tx.contracts.instantiateWithCode\<close>
  is defined, and \<open>api.tx.contracts.instantiate.meta.args.length\<close>. The calls \<open>putCode\<close>
  and \<open>instantiate\<close> are used without a test, as their declared types allow.
\<close>

record ApiBase =
  tx_contracts_instantiateWithCode :: bool
  tx_contracts_instantiate_meta_args_length :: nat

datatype CodecArg = ArgInt int | ArgText string | ArgRaw u8a | ArgBool bool

text \<open>
  An ABI constructor: its identifier, and the codec's serialisation of a parameter list
  against the constructor's declared schema (\<open>None\<close> when the values do not fit).
\<close>

record AbiConstructor =
  identifier' :: string
  encodeArgs :: "CodecArg list \<Rightarrow> u8a option"

record Abi =
  project_source_wasm :: u8a
  constructors :: "AbiConstructor list"

text \<open>
  \<open>this.api\<close> refers to the connection object, which lives outside the builder and
  whose transaction surface follows the connected runtime. A value of the record is the
  builder as one call finds it: \<open>api\<close> is what the connection exposes at that moment.
  The builder's own members are readonly, so a later call on the same builder finds
  \<open>this\<lparr>api := a\<rparr>\<close>, where \<open>a\<close> is what the connection exposes then.
\<close>

record Base =
  api :: ApiBase
  abi :: Abi

text \<open>
  \<open>codeHash\<close> is the member \<open>this.codeHash\<close> that \<open>#instantiateDual\<close> reads. The class
  neither declares nor assigns it, so an object built by the constructor has it
  undefined (\<open>None\<close>). \<open>tx\<close> holds the own properties of the object \<open>#tx\<close>; an entry
  \<open>createBluePrintTx((o, p) => this.#instantiate(c, o, p))\<close> is represented by the
  constructor \<open>c\<close> it closes over.
\<close>

record Code = Base +
  code :: u8a
  tx :: "string \<rightharpoonup> AbiConstructor"
  codeHash :: "Codec option"

text \<open>
  The options of a call. An absent member is \<open>None\<close>. A salt is held as its bytes,
  also when the caller wrote it as a string.
\<close>

record BlueprintOptions =
  gasLimit :: "int option"
  salt :: "u8a option"
  value' :: "int option"

datatype ConstructorOrId =
    ByConstructor AbiConstructor
  | ByName string
  | ByIndex int

record Event =
  section' :: string
  method' :: string
  data :: "Codec list"

record EventRecord =
  event :: Event

record ISubmittableResult =
  events :: "EventRecord list"

datatype Blueprint = Blueprint ApiBase Abi "Codec option"

datatype Contract = Contract ApiBase Abi "Codec option"

text \<open>
  The result wrapper of this file, \<open>CodeSubmittableResult\<close>, with its members
  \<open>blueprint\<close> and \<open>contract\<close>.
\<close>

datatype SubmittableResult =
  CodeSubmittableResult ISubmittableResult "Blueprint option" "Contract option"

fun blueprint :: "SubmittableResult \<Rightarrow> Blueprint option" where
  "blueprint (CodeSubmittableResult result b c) = b"

fun contract :: "SubmittableResult \<Rightarrow> Contract option" where
  "contract (CodeSubmittableResult result b c) = c"

datatype CallArg = ArgNumber int | ArgU8a u8a | ArgCodeHash "Codec option"

record Call =
  callName :: string
  callArgs :: "CallArg list"

text \<open>A submittable extrinsic: the call, and the transform given to \<open>withResultTransform\<close>.\<close>

record SubmittableExtrinsic =
  extrinsic :: Call
  resultTransform :: "ISubmittableResult \<Rightarrow> error + SubmittableResult"

subsection \<open>Collaborators of the repository that are not part of this file\<close>

text \<open>
  Modelled from the spec: \<open>EMPTY_SALT\<close> of \<open>./util\<close>, the fixed empty-salt sentinel.
  No theorem below depends on its value, a counterexample apart.
\<close>

definition EMPTY_SALT :: u8a where
  "EMPTY_SALT = []"

text \<open>
  Modelled from the spec: \<open>encodeSalt\<close> of \<open>./util\<close>. An undefined salt gives the
  sentinel; a given salt is returned unchanged in length and content. It never fails.
\<close>

definition encodeSalt :: "u8a option \<Rightarrow> u8a" where
  "encodeSalt s = (case s of None \<Rightarrow> EMPTY_SALT | Some bytes \<Rightarrow> bytes)"

text \<open>
  Modelled from the spec: \<open>Abi.findConstructor\<close>. The selector is a descriptor object,
  a string identifier or a positional index; it resolves to one entry of the
  constructor table or fails with \<open>ConstructorNotFound\<close>.
\<close>

definition findConstructor :: "Abi \<Rightarrow> ConstructorOrId \<Rightarrow> error + AbiConstructor" where
  "findConstructor a constructorOrId =
     (case constructorOrId of
        ByConstructor c \<Rightarrow>
          (if c \<in> set (constructors a) then Inr c else Inl ConstructorNotFound)
      | ByName n \<Rightarrow>
          (case find (\<lambda>c. identifier' c = n) (constructors a) of
             None \<Rightarrow> Inl ConstructorNotFound
           | Some c \<Rightarrow> Inr c)
      | ByIndex i \<Rightarrow>
          (if 0 \<le> i \<and> i < int (length (constructors a))
           then Inr (constructors a ! nat i)
           else Inl ConstructorNotFound))"

text \<open>
  Modelled from the spec: \<open>AbiConstructor.toU8a(params, salt?)\<close>. The arguments are
  serialised by the codec; only when a trailing salt is supplied, it is appended after
  the argument bytes. Values that do not fit the schema are an \<open>EncodingFailure\<close>.
\<close>

definition toU8a :: "AbiConstructor \<Rightarrow> CodecArg list \<Rightarrow> u8a option \<Rightarrow> error + u8a" where
  "toU8a c params trailingSalt =
     (case encodeArgs c params of
        None \<Rightarrow> Inl EncodingFailure
      | Some bytes \<Rightarrow>
          Inr (bytes @ (case trailingSalt of None \<Rightarrow> [] | Some s \<Rightarrow> s)))"

text \<open>
  Modelled from the spec: \<open>applyOnEvent\<close> of \<open>../util\<close>. It keeps the events whose kind
  is one of the expected tags, in order. When none is left it returns \<open>undefined\<close>
  (\<open>None\<close>) without calling \<open>fn\<close>; otherwise it returns what \<open>fn\<close> makes of them.
\<close>

definition applyOnEvent ::
  "ISubmittableResult \<Rightarrow> string list \<Rightarrow> (EventRecord list \<Rightarrow> error + 'a) \<Rightarrow> error + 'a option"
where
  "applyOnEvent result types fn =
     (let records = filter (\<lambda>r. method' (event r) \<in> set types) (events result)
      in if records = [] then Inr None
         else (case fn records of Inl e \<Rightarrow> Inl e | Inr v \<Rightarrow> Inr (Some v)))"

text \<open>
  Modelled from the spec: the event-kind test \<open>api.events.<section>.<method>.is(event)\<close>.
\<close>

definition is_event :: "string \<Rightarrow> string \<Rightarrow> Event \<Rightarrow> bool" where
  "is_event s m e = (section' e = s \<and> method' e = m)"

subsection \<open>JavaScript reads\<close>

text \<open>\<open>event.data[i]\<close>: \<open>undefined\<close> (\<open>None\<close>) out of range.\<close>

definition dataAt :: "Codec list \<Rightarrow> nat \<Rightarrow> Codec option" where
  "dataAt xs i = (if i < length xs then Some (xs ! i) else None)"

text \<open>
  \<open>#tx\<close> starts as the object literal \<open>{}\<close>, so a read \<open>this.#tx[name]\<close> that finds no
  own property continues in \<open>Object.prototype\<close>: for the names below the read yields an
  inherited member, never \<open>undefined\<close>.
\<close>

definition Object_prototype_keys :: "string list" where
  "Object_prototype_keys =
     [''constructor'', ''hasOwnProperty'', ''isPrototypeOf'', ''propertyIsEnumerable'',
      ''toLocaleString'', ''toString'', ''valueOf'', ''__proto__'',
      ''__defineGetter__'', ''__defineSetter__'', ''__lookupGetter__'', ''__lookupSetter__'']"

text \<open>\<open>isUndefined(this.#tx[messageName])\<close>\<close>

definition isUndefined_tx :: "(string \<rightharpoonup> AbiConstructor) \<Rightarrow> string \<Rightarrow> bool" where
  "isUndefined_tx m messageName =
     (m messageName = None \<and> messageName \<notin> set Object_prototype_keys)"

subsection \<open>The constructor\<close>

text \<open>
  The base constructor \<open>super(api, abi, decorateMethod)\<close> is not part of this file; it
  is taken to store \<open>api\<close> and \<open>abi\<close> and to return. Then the constructor chooses the
  code, asserts that it is WASM, and fills the table with one round of \<open>forEach\<close> for
  each constructor of the ABI, in the ABI's order.
\<close>

definition registerConstructor ::
  "polkadot_util \<Rightarrow> (string \<rightharpoonup> AbiConstructor) \<Rightarrow> AbiConstructor \<Rightarrow> (string \<rightharpoonup> AbiConstructor)"
where
  "registerConstructor U m c =
     (let messageName = stringCamelCase U (identifier' c)
      in if isUndefined_tx m messageName then m(messageName \<mapsto> c) else m)"

definition new_Code :: "polkadot_util \<Rightarrow> ApiBase \<Rightarrow> Abi \<Rightarrow> U8aLike \<Rightarrow> error + Code" where
  "new_Code U api0 abi0 wasm =
     (let code0 = (if isWasm U (project_source_wasm abi0)
                   then project_source_wasm abi0
                   else u8aToU8a U wasm)
      in if \<not> isWasm U code0 then Inl InvalidCodeBundle
         else Inr \<lparr>api = api0, abi = abi0, code = code0,
                   tx = foldl (registerConstructor U) Map.empty (constructors abi0),
                   codeHash = None\<rparr>)"

subsection \<open>createBlueprint\<close>

text \<open>
  The callback \<open>([record]) => new Blueprint(api, abi, record.event.data[0], ...)\<close>:
  it reads the first record, and reading \<open>record.event\<close> of no record throws.
\<close>

definition blueprintOfFirst :: "Code \<Rightarrow> EventRecord list \<Rightarrow> error + Blueprint" where
  "blueprintOfFirst this records =
     (case records of
        [] \<Rightarrow> Inl TypeError
      | record # rest \<Rightarrow> Inr (Blueprint (api this) (abi this) (dataAt (data (event record)) 0)))"

definition createBlueprintTransform ::
  "Code \<Rightarrow> ISubmittableResult \<Rightarrow> error + SubmittableResult"
where
  "createBlueprintTransform this result =
     (case applyOnEvent result [''CodeStored''] (blueprintOfFirst this) of
        Inl e \<Rightarrow> Inl e
      | Inr b \<Rightarrow> Inr (CodeSubmittableResult result b None))"

definition createBlueprint :: "polkadot_util \<Rightarrow> Code \<Rightarrow> SubmittableExtrinsic" where
  "createBlueprint U this =
     \<lparr>extrinsic = \<lparr>callName = ''putCode'',
                    callArgs = [ArgU8a (compactAddLength U (code this))]\<rparr>,
      resultTransform = createBlueprintTransform this\<rparr>"

subsection \<open>#instantiateSingle\<close>

text \<open>The callback of \<open>records.reduce\<close>, on the accumulator \<open>[blueprint, contract]\<close>.\<close>

definition reduceStep ::
  "Code \<Rightarrow> Blueprint option \<times> Contract option \<Rightarrow> EventRecord
     \<Rightarrow> Blueprint option \<times> Contract option"
where
  "reduceStep this acc record =
     (case acc of (blueprint0, contract0) \<Rightarrow>
        if is_event ''contracts'' ''Instantiated'' (event record)
        then (blueprint0, Some (Contract (api this) (abi this) (dataAt (data (event record)) 1)))
        else if is_event ''contracts'' ''CodeStored'' (event record)
        then (Some (Blueprint (api this) (abi this) (dataAt (data (event record)) 0)), contract0)
        else (blueprint0, contract0))"

text \<open>\<open>records.reduce(..., [])\<close>: a left fold from the pair of two unset slots.\<close>

definition reduceRecords ::
  "Code \<Rightarrow> EventRecord list \<Rightarrow> error + (Blueprint option \<times> Contract option)"
where
  "reduceRecords this records = Inr (foldl (reduceStep this) (None, None) records)"

text \<open>\<open>new CodeSubmittableResult(result, ...(applyOnEvent(...) || []))\<close>\<close>

definition instantiateSingleTransform ::
  "Code \<Rightarrow> ISubmittableResult \<Rightarrow> error + SubmittableResult"
where
  "instantiateSingleTransform this result =
     (case applyOnEvent result [''CodeStored'', ''Instantiated''] (reduceRecords this) of
        Inl e \<Rightarrow> Inl e
      | Inr None \<Rightarrow> Inr (CodeSubmittableResult result None None)
      | Inr (Some (blueprint0, contract0)) \<Rightarrow>
          Inr (CodeSubmittableResult result blueprint0 contract0))"

text \<open>The defaults of the destructured options: \<open>{ gasLimit = 0, salt, value = 0 }\<close>.\<close>

definition orZero :: "int option \<Rightarrow> int" where
  "orZero v = (case v of None \<Rightarrow> 0 | Some n \<Rightarrow> n)"

definition instantiateSingle ::
  "polkadot_util \<Rightarrow> Code \<Rightarrow> ConstructorOrId \<Rightarrow> BlueprintOptions \<Rightarrow> CodecArg list
     \<Rightarrow> error + SubmittableExtrinsic"
where
  "instantiateSingle U this constructorOrId opts params =
     (let encodedSalt = encodeSalt (salt opts)
      in case findConstructor (abi this) constructorOrId of
           Inl e \<Rightarrow> Inl e
         | Inr c \<Rightarrow>
             (case toU8a c params None of
                Inl e \<Rightarrow> Inl e
              | Inr encoded \<Rightarrow>
                  Inr \<lparr>extrinsic =
                         \<lparr>callName = ''instantiateWithCode'',
                          callArgs = [ArgNumber (orZero (value' opts)),
                                      ArgNumber (orZero (gasLimit opts)),
                                      ArgU8a (compactAddLength U (code this)),
                                      ArgU8a encoded,
                                      ArgU8a encodedSalt]\<rparr>,
                       resultTransform = instantiateSingleTransform this\<rparr>))"

subsection \<open>#instantiateDual\<close>

text \<open>
  The result transform of this path is
  \<open>new BlueprintSubmittableResult(result, applyOnEvent(result, ['Instantiated'], ...))\<close>.
  The file neither imports nor declares the name \<open>BlueprintSubmittableResult\<close>. A
  \<open>new\<close> expression evaluates its constructor before its arguments, so reading the name
  throws before \<open>applyOnEvent\<close> is called, whatever the events are.
\<close>

definition instantiateDualTransform ::
  "Code \<Rightarrow> ISubmittableResult \<Rightarrow> error + SubmittableResult"
where
  "instantiateDualTransform this result = Inl ReferenceError"

definition instantiateDual ::
  "polkadot_util \<Rightarrow> Code \<Rightarrow> ConstructorOrId \<Rightarrow> BlueprintOptions \<Rightarrow> CodecArg list
     \<Rightarrow> error + SubmittableExtrinsic"
where
  "instantiateDual U this constructorOrId opts params =
     (let encodedSalt = encodeSalt (salt opts);
          withSalt = (tx_contracts_instantiate_meta_args_length (api this) = 5)
      in case findConstructor (abi this) constructorOrId of
           Inl e \<Rightarrow> Inl e
         | Inr c \<Rightarrow>
             (case toU8a c params (Some (if withSalt then EMPTY_SALT else encodedSalt)) of
                Inl e \<Rightarrow> Inl e
              | Inr encoded \<Rightarrow>
                  Inr \<lparr>extrinsic =
                         \<lparr>callName = ''instantiate'',
                          callArgs =
                            (if withSalt
                             then [ArgNumber (orZero (value' opts)),
                                   ArgNumber (orZero (gasLimit opts)),
                                   ArgCodeHash (codeHash this),
                                   ArgU8a encoded,
                                   ArgU8a encodedSalt]
                             else [ArgNumber (orZero (value' opts)),
                                   ArgNumber (orZero (gasLimit opts)),
                                   ArgCodeHash (codeHash this),
                                   ArgU8a encoded])\<rparr>,
                       resultTransform = instantiateDualTransform this\<rparr>))"

subsection \<open>#instantiate\<close>

definition instantiate ::
  "polkadot_util \<Rightarrow> Code \<Rightarrow> ConstructorOrId \<Rightarrow> BlueprintOptions \<Rightarrow> CodecArg list
     \<Rightarrow> error + SubmittableExtrinsic"
where
  "instantiate U this constructorOrId opts params =
     (if tx_contracts_instantiateWithCode (api this)
      then instantiateSingle U this constructorOrId opts params
      else instantiateDual U this constructorOrId opts params)"

subsection \<open>Notions used to state the properties\<close>

text \<open>The last element of a list, if there is one.\<close>

definition lastOption :: "'a list \<Rightarrow> 'a option" where
  "lastOption xs = (if xs = [] then None else Some (last xs))"

text \<open>The first element of a list, if there is one.\<close>

definition firstOption :: "'a list \<Rightarrow> 'a option" where
  "firstOption xs = (case xs of [] \<Rightarrow> None | x # rest \<Rightarrow> Some x)"

subsection \<open>Concrete inputs\<close>

text \<open>
  Stand-ins for the library functions. They agree with \<open>@polkadot/util\<close> on the inputs
  used below: the WASM magic number \<open>\0asm\<close>, the one-byte compact prefix of a blob
  shorter than 64 bytes, and the camel case of the identifiers of the example ABIs.
\<close>

definition exampleUtil :: polkadot_util where
  "exampleUtil =
     \<lparr>isWasm = (\<lambda>bytes. take 4 bytes = [0, 97, 115, 109]),
      compactAddLength = (\<lambda>bytes. word_of_nat (4 * length bytes) # bytes),
      stringCamelCase = (\<lambda>s. if s = ''to_string'' then ''toString'' else s),
      u8aToU8a = (\<lambda>w. case w of FromU8a bytes \<Rightarrow> bytes | FromString s \<Rightarrow> [] | Nullish \<Rightarrow> [])\<rparr>"

definition exampleWasm :: u8a where
  "exampleWasm = [0, 97, 115, 109, 1, 0, 0, 0]"

text \<open>A constructor without parameters, encoded as its four selector bytes.\<close>

definition newConstructor :: AbiConstructor where
  "newConstructor =
     \<lparr>identifier' = ''new'',
      encodeArgs = (\<lambda>params. if params = [] then Some [155, 174, 157, 94] else None)\<rparr>"

definition exampleAbi :: Abi where
  "exampleAbi = \<lparr>project_source_wasm = [], constructors = [newConstructor]\<rparr>"

text \<open>A runtime with the combined call, and legacy runtimes of both call shapes.\<close>

definition runtimeSingle :: ApiBase where
  "runtimeSingle =
     \<lparr>tx_contracts_instantiateWithCode = True,
      tx_contracts_instantiate_meta_args_length = 5\<rparr>"

definition runtimeDual5 :: ApiBase where
  "runtimeDual5 =
     \<lparr>tx_contracts_instantiateWithCode = False,
      tx_contracts_instantiate_meta_args_length = 5\<rparr>"

definition runtimeDual4 :: ApiBase where
  "runtimeDual4 =
     \<lparr>tx_contracts_instantiateWithCode = False,
      tx_contracts_instantiate_meta_args_length = 4\<rparr>"

text \<open>The object the constructor builds from \<open>exampleAbi\<close> and \<open>exampleWasm\<close>.\<close>

definition exampleCode :: "ApiBase \<Rightarrow> Code" where
  "exampleCode api0 =
     \<lparr>api = api0, abi = exampleAbi, code = exampleWasm,
      tx = [''new'' \<mapsto> newConstructor], codeHash = None\<rparr>"

definition saltedOptions :: BlueprintOptions where
  "saltedOptions = \<lparr>gasLimit = Some 1000, salt = Some [7], value' = None\<rparr>"

definition codeStored :: "Codec \<Rightarrow> EventRecord" where
  "codeStored hash =
     \<lparr>event = \<lparr>section' = ''contracts'', method' = ''CodeStored'', data = [hash]\<rparr>\<rparr>"

definition instantiated :: "Codec \<Rightarrow> Codec \<Rightarrow> EventRecord" where
  "instantiated deployer address =
     \<lparr>event = \<lparr>section' = ''contracts'', method' = ''Instantiated'',
                data = [deployer, address]\<rparr>\<rparr>"

definition extrinsicSuccess :: EventRecord where
  "extrinsicSuccess =
     \<lparr>event = \<lparr>section' = ''system'', method' = ''ExtrinsicSuccess'', data = []\<rparr>\<rparr>"

text \<open>An ABI whose two constructors both normalise to \<open>toString\<close>.\<close>

definition toStringAbi :: Abi where
  "toStringAbi =
     \<lparr>project_source_wasm = exampleWasm,
      constructors =
        [\<lparr>identifier' = ''to_string'', encodeArgs = (\<lambda>params. Some [1])\<rparr>,
         \<lparr>identifier' = ''toString'', encodeArgs = (\<lambda>params. Some [2])\<rparr>]\<rparr>"

text \<open>A submission in which each kind of event occurs twice.\<close>

definition repeatedEvents :: ISubmittableResult where
  "repeatedEvents =
     \<lparr>events = [codeStored [1], instantiated [2] [10], codeStored [3], instantiated [2] [20]]\<rparr>"

definition plainOptions :: BlueprintOptions where
  "plainOptions = \<lparr>gasLimit = None, salt = None, value' = Some 5\<rparr>"

section \<open>Properties\<close>

subsection \<open>The examples, evaluated\<close>

lemma findConstructor_example:
  "findConstructor (abi (exampleCode api0)) (ByName ''new'') = Inr newConstructor"
  by (simp add: findConstructor_def exampleCode_def exampleAbi_def newConstructor_def)

lemma encodeArgs_example: "encodeArgs newConstructor [] = Some [155, 174, 157, 94]"
  by (simp add: newConstructor_def)

lemma new_Code_example:
  "new_Code exampleUtil api0 exampleAbi (FromU8a exampleWasm) = Inr (exampleCode api0)"
  by (simp add: new_Code_def exampleUtil_def exampleAbi_def exampleWasm_def exampleCode_def
      registerConstructor_def isUndefined_tx_def Object_prototype_keys_def newConstructor_def
      Let_def)

lemma instantiate_example_single:
  "instantiate exampleUtil (exampleCode runtimeSingle) (ByName ''new'') saltedOptions [] =
     Inr \<lparr>extrinsic =
            \<lparr>callName = ''instantiateWithCode'',
             callArgs = [ArgNumber 0, ArgNumber 1000,
                         ArgU8a [32, 0, 97, 115, 109, 1, 0, 0, 0],
                         ArgU8a [155, 174, 157, 94],
                         ArgU8a [7]]\<rparr>,
          resultTransform = instantiateSingleTransform (exampleCode runtimeSingle)\<rparr>"
  by (simp add: instantiate_def instantiateSingle_def findConstructor_def toU8a_def
      newConstructor_def orZero_def encodeSalt_def saltedOptions_def exampleUtil_def
      exampleCode_def exampleWasm_def runtimeSingle_def exampleAbi_def Let_def)

lemma instantiate_example_single_index:
  "instantiate exampleUtil (exampleCode runtimeSingle) (ByIndex 0) plainOptions [] =
     Inr \<lparr>extrinsic =
            \<lparr>callName = ''instantiateWithCode'',
             callArgs = [ArgNumber 5, ArgNumber 0,
                         ArgU8a [32, 0, 97, 115, 109, 1, 0, 0, 0],
                         ArgU8a [155, 174, 157, 94],
                         ArgU8a EMPTY_SALT]\<rparr>,
          resultTransform = instantiateSingleTransform (exampleCode runtimeSingle)\<rparr>"
  by (simp add: instantiate_def instantiateSingle_def findConstructor_def toU8a_def
      newConstructor_def orZero_def encodeSalt_def plainOptions_def exampleUtil_def
      exampleCode_def exampleWasm_def runtimeSingle_def exampleAbi_def Let_def)

lemma instantiate_example_dual:
  "instantiate exampleUtil (exampleCode runtimeDual4) (ByName ''new'') saltedOptions [] =
     Inr \<lparr>extrinsic =
            \<lparr>callName = ''instantiate'',
             callArgs = [ArgNumber 0, ArgNumber 1000, ArgCodeHash None,
                         ArgU8a [155, 174, 157, 94, 7]]\<rparr>,
          resultTransform = instantiateDualTransform (exampleCode runtimeDual4)\<rparr>"
  by (simp add: instantiate_def instantiateDual_def findConstructor_def toU8a_def
      newConstructor_def orZero_def encodeSalt_def saltedOptions_def exampleCode_def
      exampleAbi_def runtimeDual4_def Let_def)

lemma instantiate_example_dual_index:
  "instantiate exampleUtil (exampleCode runtimeDual4) (ByIndex 0) plainOptions [] =
     Inr \<lparr>extrinsic =
            \<lparr>callName = ''instantiate'',
             callArgs = [ArgNumber 5, ArgNumber 0, ArgCodeHash None,
                         ArgU8a ([155, 174, 157, 94] @ EMPTY_SALT)]\<rparr>,
          resultTransform = instantiateDualTransform (exampleCode runtimeDual4)\<rparr>"
  by (simp add: instantiate_def instantiateDual_def findConstructor_def toU8a_def
      newConstructor_def orZero_def encodeSalt_def plainOptions_def exampleCode_def
      exampleAbi_def runtimeDual4_def Let_def)

subsection \<open>Salt placement on the dual-phase path\<close>

text \<open>
  C1, as amended. On the dual-phase path, for a constructor that resolves and
  parameters that encode: when the runtime's \<open>instantiate\<close> declares 5 arguments, the
  constructor arguments are encoded with the empty-salt sentinel as trailing salt and
  the caller's encoded salt is the fifth call parameter; for any other count (the
  4-argument legacy shape) the caller's encoded salt is what the encoding call receives,
  so it ends the encoded bytes, and the call has four parameters.
\<close>

theorem dual_phase_salt_placement:
  "findConstructor (abi this) constructorOrId = Inr c \<Longrightarrow> encodeArgs c params = Some bytes \<Longrightarrow>
     instantiateDual U this constructorOrId opts params =
       Inr \<lparr>extrinsic =
              \<lparr>callName = ''instantiate'',
               callArgs =
                 (if tx_contracts_instantiate_meta_args_length (api this) = 5
                  then [ArgNumber (orZero (value' opts)),
                        ArgNumber (orZero (gasLimit opts)),
                        ArgCodeHash (codeHash this),
                        ArgU8a (bytes @ EMPTY_SALT),
                        ArgU8a (encodeSalt (salt opts))]
                  else [ArgNumber (orZero (value' opts)),
                        ArgNumber (orZero (gasLimit opts)),
                        ArgCodeHash (codeHash this),
                        ArgU8a (bytes @ encodeSalt (salt opts))])\<rparr>,
            resultTransform = instantiateDualTransform this\<rparr>
     \<and> toU8a c params (Some EMPTY_SALT) = Inr (bytes @ EMPTY_SALT)
     \<and> toU8a c params (Some (encodeSalt (salt opts))) = Inr (bytes @ encodeSalt (salt opts))"
  by (simp add: instantiateDual_def toU8a_def)

theorem dual_phase_salt_placement_witness:
  "instantiateDual exampleUtil (exampleCode runtimeDual5) (ByName ''new'') saltedOptions [] =
     Inr \<lparr>extrinsic =
            \<lparr>callName = ''instantiate'',
             callArgs = [ArgNumber 0, ArgNumber 1000, ArgCodeHash None,
                         ArgU8a ([155, 174, 157, 94] @ EMPTY_SALT), ArgU8a [7]]\<rparr>,
          resultTransform = instantiateDualTransform (exampleCode runtimeDual5)\<rparr>
   \<and> instantiateDual exampleUtil (exampleCode runtimeDual4) (ByName ''new'') saltedOptions [] =
     Inr \<lparr>extrinsic =
            \<lparr>callName = ''instantiate'',
             callArgs = [ArgNumber 0, ArgNumber 1000, ArgCodeHash None,
                         ArgU8a [155, 174, 157, 94, 7]]\<rparr>,
          resultTransform = instantiateDualTransform (exampleCode runtimeDual4)\<rparr>"
  using dual_phase_salt_placement [where U = exampleUtil and opts = saltedOptions
      and this = "exampleCode runtimeDual5", OF findConstructor_example encodeArgs_example]
    dual_phase_salt_placement [where U = exampleUtil and opts = saltedOptions
      and this = "exampleCode runtimeDual4", OF findConstructor_example encodeArgs_example]
  by (simp add: orZero_def encodeSalt_def saltedOptions_def exampleCode_def
      runtimeDual5_def runtimeDual4_def)

text \<open>
  C1 as stated fails: on a runtime whose \<open>instantiate\<close> declares 4 arguments and with
  the salt \<open>[7]\<close>, the encoded argument of the call is what the encoding call returns
  for the real salt, not what it returns for the sentinel.
\<close>

theorem legacy_encoding_call_gets_real_salt:
  "instantiateDual exampleUtil (exampleCode runtimeDual4) (ByName ''new'') saltedOptions [] =
     Inr \<lparr>extrinsic =
            \<lparr>callName = ''instantiate'',
             callArgs = [ArgNumber 0, ArgNumber 1000, ArgCodeHash None,
                         ArgU8a [155, 174, 157, 94, 7]]\<rparr>,
          resultTransform = instantiateDualTransform (exampleCode runtimeDual4)\<rparr>
   \<and> toU8a newConstructor [] (Some (encodeSalt (salt saltedOptions)))
       = Inr [155, 174, 157, 94, 7]
   \<and> toU8a newConstructor [] (Some EMPTY_SALT) = Inr [155, 174, 157, 94]
   \<and> toU8a newConstructor [] (Some EMPTY_SALT) \<noteq> Inr [155, 174, 157, 94, 7]"
  by (simp add: instantiateDual_def findConstructor_def toU8a_def newConstructor_def
      orZero_def encodeSalt_def saltedOptions_def EMPTY_SALT_def exampleCode_def
      exampleAbi_def runtimeDual4_def Let_def)

subsection \<open>Selection of the path\<close>

text \<open>
  C2, as amended. Every call of \<open>#instantiate\<close> probes the runtime anew: it takes the
  single-phase path if and only if the connection exposes \<open>instantiateWithCode\<close> at
  that moment, and the dual-phase path otherwise; for a constructor that resolves and
  parameters that encode, the call returns, and the kind of call and the result
  transform are those of the path taken. Nothing is stored, so two calls on the same
  builder build the same kind of call exactly when the connection answers the probe
  the same way at both.
\<close>

theorem instantiate_probes_at_every_call:
  "instantiate U this constructorOrId opts params =
     (if tx_contracts_instantiateWithCode (api this)
      then instantiateSingle U this constructorOrId opts params
      else instantiateDual U this constructorOrId opts params)
   \<and> (findConstructor (abi this) constructorOrId = Inr c \<and> encodeArgs c params = Some bytes \<longrightarrow>
        (\<exists>s. instantiate U this constructorOrId opts params = Inr s
           \<and> callName (extrinsic s) =
               (if tx_contracts_instantiateWithCode (api this)
                then ''instantiateWithCode'' else ''instantiate'')
           \<and> resultTransform s =
               (if tx_contracts_instantiateWithCode (api this)
                then instantiateSingleTransform this else instantiateDualTransform this)))
   \<and> (findConstructor (abi this) constructorOrId = Inr c \<and> encodeArgs c params = Some bytes
      \<and> findConstructor (abi this) constructorOrId' = Inr c'
      \<and> encodeArgs c' params' = Some bytes' \<longrightarrow>
        (\<exists>s s'. instantiate U (this\<lparr>api := a\<rparr>) constructorOrId opts params = Inr s
           \<and> instantiate U (this\<lparr>api := a'\<rparr>) constructorOrId' opts' params' = Inr s'
           \<and> (callName (extrinsic s) = callName (extrinsic s'))
               = (tx_contracts_instantiateWithCode a = tx_contracts_instantiateWithCode a')))"
  by (simp add: instantiate_def instantiateSingle_def instantiateDual_def toU8a_def Let_def)

theorem instantiate_probes_at_every_call_witness:
  "instantiate exampleUtil (exampleCode runtimeSingle) (ByName ''new'') saltedOptions [] =
     instantiateSingle exampleUtil (exampleCode runtimeSingle) (ByName ''new'') saltedOptions []
   \<and> (\<exists>s. instantiate exampleUtil (exampleCode runtimeSingle) (ByName ''new'') saltedOptions []
            = Inr s
         \<and> callName (extrinsic s) = ''instantiateWithCode''
         \<and> resultTransform s = instantiateSingleTransform (exampleCode runtimeSingle))
   \<and> (\<exists>s s'.
         instantiate exampleUtil ((exampleCode runtimeSingle)\<lparr>api := runtimeSingle\<rparr>)
           (ByName ''new'') saltedOptions [] = Inr s
         \<and> instantiate exampleUtil ((exampleCode runtimeSingle)\<lparr>api := runtimeDual4\<rparr>)
             (ByName ''new'') plainOptions [] = Inr s'
         \<and> callName (extrinsic s) \<noteq> callName (extrinsic s'))"
proof -
  have probe: "tx_contracts_instantiateWithCode (api (exampleCode runtimeSingle))"
    "tx_contracts_instantiateWithCode runtimeSingle"
    "\<not> tx_contracts_instantiateWithCode runtimeDual4"
    by (simp_all add: exampleCode_def runtimeSingle_def runtimeDual4_def)
  have resolves: "findConstructor (abi (exampleCode runtimeSingle)) (ByName ''new'')
                    = Inr newConstructor
                  \<and> encodeArgs newConstructor [] = Some [155, 174, 157, 94]"
    using findConstructor_example [of runtimeSingle] encodeArgs_example by simp
  note at_example = instantiate_probes_at_every_call
    [where U = exampleUtil and this = "exampleCode runtimeSingle"
       and constructorOrId = "ByName ''new''" and constructorOrId' = "ByName ''new''"
       and opts = saltedOptions and opts' = plainOptions
       and params = "[]" and params' = "[]" and c = newConstructor and c' = newConstructor
       and bytes = "[155, 174, 157, 94]" and bytes' = "[155, 174, 157, 94]"
       and a = runtimeSingle and a' = runtimeDual4]
  have p1: "instantiate exampleUtil (exampleCode runtimeSingle) (ByName ''new'') saltedOptions []
      = instantiateSingle exampleUtil (exampleCode runtimeSingle) (ByName ''new'')
          saltedOptions []"
    using at_example [THEN conjunct1] by (simp only: probe if_True)
  have p2: "\<exists>s. instantiate exampleUtil (exampleCode runtimeSingle) (ByName ''new'')
                 saltedOptions [] = Inr s
         \<and> callName (extrinsic s) = ''instantiateWithCode''
         \<and> resultTransform s = instantiateSingleTransform (exampleCode runtimeSingle)"
    using at_example [THEN conjunct2, THEN conjunct1, THEN mp, OF resolves]
    by (simp only: probe if_True)
  have p3: "\<exists>s s'.
         instantiate exampleUtil ((exampleCode runtimeSingle)\<lparr>api := runtimeSingle\<rparr>)
           (ByName ''new'') saltedOptions [] = Inr s
         \<and> instantiate exampleUtil ((exampleCode runtimeSingle)\<lparr>api := runtimeDual4\<rparr>)
             (ByName ''new'') plainOptions [] = Inr s'
         \<and> callName (extrinsic s) \<noteq> callName (extrinsic s')"
    using at_example [THEN conjunct2, THEN conjunct2, THEN mp] resolves
    by (simp add: probe)
  from p1 p2 p3 show ?thesis
    by (intro conjI)
qed

text \<open>
  C2 as stated fails: the selection can change after the first call. The same
  builder is called twice with the same arguments; at the first call the connection
  does not expose \<open>instantiateWithCode\<close>, at the second it does. The first call is
  built on the dual-phase path, the second on the single-phase path.
\<close>

theorem selection_follows_the_runtime:
  "instantiate exampleUtil (exampleCode runtimeDual4) (ByName ''new'') saltedOptions [] =
     Inr \<lparr>extrinsic =
            \<lparr>callName = ''instantiate'',
             callArgs = [ArgNumber 0, ArgNumber 1000, ArgCodeHash None,
                         ArgU8a [155, 174, 157, 94, 7]]\<rparr>,
          resultTransform = instantiateDualTransform (exampleCode runtimeDual4)\<rparr>
   \<and> instantiate exampleUtil ((exampleCode runtimeDual4)\<lparr>api := runtimeSingle\<rparr>)
       (ByName ''new'') saltedOptions [] =
     Inr \<lparr>extrinsic =
            \<lparr>callName = ''instantiateWithCode'',
             callArgs = [ArgNumber 0, ArgNumber 1000,
                         ArgU8a [32, 0, 97, 115, 109, 1, 0, 0, 0],
                         ArgU8a [155, 174, 157, 94],
                         ArgU8a [7]]\<rparr>,
          resultTransform =
            instantiateSingleTransform ((exampleCode runtimeDual4)\<lparr>api := runtimeSingle\<rparr>)\<rparr>"
  by (simp add: instantiate_def instantiateSingle_def instantiateDual_def findConstructor_def
      toU8a_def newConstructor_def orZero_def encodeSalt_def saltedOptions_def exampleUtil_def
      exampleCode_def exampleWasm_def runtimeSingle_def runtimeDual4_def exampleAbi_def
      Let_def)

subsection \<open>Projection of the events\<close>

lemma lastOption_simps [simp]:
  "lastOption [] = None" "lastOption (xs @ [x]) = Some x"
  by (simp_all add: lastOption_def)

lemma firstOption_simps [simp]:
  "firstOption [] = None" "firstOption (x # xs) = Some x"
  by (simp_all add: firstOption_def)

lemma kinds_exclusive:
  "is_event ''contracts'' ''Instantiated'' e \<Longrightarrow> \<not> is_event ''contracts'' ''CodeStored'' e"
  by (simp add: is_event_def)

lemma reduceStep_Instantiated:
  "is_event ''contracts'' ''Instantiated'' (event r) \<Longrightarrow>
     reduceStep this (b, c) r =
       (b, Some (Contract (api this) (abi this) (dataAt (data (event r)) 1)))"
  by (simp add: reduceStep_def)

lemma reduceStep_CodeStored:
  "is_event ''contracts'' ''CodeStored'' (event r) \<Longrightarrow>
     reduceStep this (b, c) r =
       (Some (Blueprint (api this) (abi this) (dataAt (data (event r)) 0)), c)"
  by (auto simp: reduceStep_def dest: kinds_exclusive)

lemma reduceStep_other:
  "\<not> is_event ''contracts'' ''Instantiated'' (event r) \<Longrightarrow>
   \<not> is_event ''contracts'' ''CodeStored'' (event r) \<Longrightarrow> reduceStep this (b, c) r = (b, c)"
  by (simp add: reduceStep_def)

text \<open>
  The fold in closed form: each slot holds the handle of the last event of its kind,
  or its initial value when there is none.
\<close>

lemma foldl_reduceStep:
  "foldl (reduceStep this) acc rs =
     ((case lastOption (filter (\<lambda>r. is_event ''contracts'' ''CodeStored'' (event r)) rs) of
         None \<Rightarrow> fst acc
       | Some r \<Rightarrow> Some (Blueprint (api this) (abi this) (dataAt (data (event r)) 0))),
      (case lastOption (filter (\<lambda>r. is_event ''contracts'' ''Instantiated'' (event r)) rs) of
         None \<Rightarrow> snd acc
       | Some r \<Rightarrow> Some (Contract (api this) (abi this) (dataAt (data (event r)) 1))))"
proof (induction rs rule: rev_induct)
  case Nil
  show ?case by simp
next
  case (snoc r rs)
  obtain b c where bc: "foldl (reduceStep this) acc rs = (b, c)"
    by (cases "foldl (reduceStep this) acc rs") simp
  consider (inst) "is_event ''contracts'' ''Instantiated'' (event r)"
    | (stored) "is_event ''contracts'' ''CodeStored'' (event r)"
    | (other) "\<not> is_event ''contracts'' ''Instantiated'' (event r)"
        "\<not> is_event ''contracts'' ''CodeStored'' (event r)"
    by blast
  then show ?case
  proof cases
    case inst
    with snoc bc kinds_exclusive [OF inst] show ?thesis
      by (simp add: reduceStep_Instantiated)
  next
    case stored
    with snoc bc kinds_exclusive [of "event r"] show ?thesis
      by (auto simp: reduceStep_CodeStored)
  next
    case other
    with snoc bc show ?thesis
      by (simp add: reduceStep_other)
  qed
qed

lemma filter_kind_CodeStored:
  "filter (\<lambda>r. is_event ''contracts'' ''CodeStored'' (event r))
     (filter (\<lambda>r. method' (event r) \<in> set [''CodeStored'', ''Instantiated'']) rs)
   = filter (\<lambda>r. is_event ''contracts'' ''CodeStored'' (event r)) rs"
  by (induction rs) (auto simp: is_event_def)

lemma filter_kind_Instantiated:
  "filter (\<lambda>r. is_event ''contracts'' ''Instantiated'' (event r))
     (filter (\<lambda>r. method' (event r) \<in> set [''CodeStored'', ''Instantiated'']) rs)
   = filter (\<lambda>r. is_event ''contracts'' ''Instantiated'' (event r)) rs"
  by (induction rs) (auto simp: is_event_def)

lemma filter_kind_empty:
  "filter (\<lambda>r. method' (event r) \<in> set [''CodeStored'', ''Instantiated'']) rs = [] \<Longrightarrow>
     filter (\<lambda>r. is_event ''contracts'' k (event r)) rs = []
     \<or> (k \<noteq> ''CodeStored'' \<and> k \<noteq> ''Instantiated'')"
  by (induction rs) (auto simp: is_event_def split: if_splits)

text \<open>
  C3, as amended. In the single-phase projection every \<open>CodeStored\<close> event of the
  contracts module sets the code handle and every \<open>Instantiated\<close> event sets the
  contract handle, whether the slot is set already or not. So with several events of one
  kind the handle comes from the last of them, and the result carries at most one handle
  of each kind: the code handle from the first data field of the last \<open>CodeStored\<close>
  event, the contract handle from the second data field of the last \<open>Instantiated\<close>
  event.
\<close>

theorem single_phase_last_event_wins:
  "instantiateSingleTransform this result =
     Inr (CodeSubmittableResult result
       (map_option (\<lambda>r. Blueprint (api this) (abi this) (dataAt (data (event r)) 0))
          (lastOption (filter (\<lambda>r. is_event ''contracts'' ''CodeStored'' (event r))
             (events result))))
       (map_option (\<lambda>r. Contract (api this) (abi this) (dataAt (data (event r)) 1))
          (lastOption (filter (\<lambda>r. is_event ''contracts'' ''Instantiated'' (event r))
             (events result)))))"
proof (cases "filter (\<lambda>r. method' (event r) \<in> set [''CodeStored'', ''Instantiated''])
                (events result) = []")
  case True
  from filter_kind_empty [OF True, of "''CodeStored''"]
  have a: "filter (\<lambda>r. is_event ''contracts'' ''CodeStored'' (event r)) (events result) = []"
    by simp
  from filter_kind_empty [OF True, of "''Instantiated''"]
  have b: "filter (\<lambda>r. is_event ''contracts'' ''Instantiated'' (event r)) (events result) = []"
    by simp
  from True show ?thesis
    unfolding instantiateSingleTransform_def applyOnEvent_def a b by simp
next
  case False
  let ?rs = "filter (\<lambda>r. method' (event r) \<in> set [''CodeStored'', ''Instantiated''])
               (events result)"
  have fold: "foldl (reduceStep this) (None, None) ?rs =
      (map_option (\<lambda>r. Blueprint (api this) (abi this) (dataAt (data (event r)) 0))
         (lastOption (filter (\<lambda>r. is_event ''contracts'' ''CodeStored'' (event r))
            (events result))),
       map_option (\<lambda>r. Contract (api this) (abi this) (dataAt (data (event r)) 1))
         (lastOption (filter (\<lambda>r. is_event ''contracts'' ''Instantiated'' (event r))
            (events result))))"
    by (simp only: foldl_reduceStep filter_kind_CodeStored filter_kind_Instantiated)
       (simp split: option.splits)
  have "applyOnEvent result [''CodeStored'', ''Instantiated''] (reduceRecords this)
          = Inr (Some (foldl (reduceStep this) (None, None) ?rs))"
    using False by (simp add: applyOnEvent_def reduceRecords_def)
  then show ?thesis
    unfolding instantiateSingleTransform_def fold by simp
qed

text \<open>
  C3 as stated fails: with two \<open>CodeStored\<close> events (hashes \<open>[1]\<close>, then \<open>[3]\<close>) and
  two \<open>Instantiated\<close> events (addresses \<open>[10]\<close>, then \<open>[20]\<close>) the handles are those of
  the later events, not of the first ones.
\<close>

theorem later_event_overwrites_handle:
  "instantiateSingleTransform (exampleCode runtimeSingle) repeatedEvents =
     Inr (CodeSubmittableResult repeatedEvents
       (Some (Blueprint runtimeSingle exampleAbi (Some [3])))
       (Some (Contract runtimeSingle exampleAbi (Some [20]))))
   \<and> instantiateSingleTransform (exampleCode runtimeSingle) repeatedEvents \<noteq>
     Inr (CodeSubmittableResult repeatedEvents
       (Some (Blueprint runtimeSingle exampleAbi (Some [1])))
       (Some (Contract runtimeSingle exampleAbi (Some [10]))))"
  by (simp add: instantiateSingleTransform_def applyOnEvent_def reduceRecords_def
      reduceStep_def is_event_def dataAt_def repeatedEvents_def codeStored_def
      instantiated_def exampleCode_def)

lemma createBlueprintTransform_eq:
  "createBlueprintTransform this result =
     Inr (CodeSubmittableResult result
       (map_option (\<lambda>r. Blueprint (api this) (abi this) (dataAt (data (event r)) 0))
          (firstOption (filter (\<lambda>r. method' (event r) = ''CodeStored'') (events result))))
       None)"
  by (cases "filter (\<lambda>r. method' (event r) = ''CodeStored'') (events result)")
     (simp_all add: createBlueprintTransform_def applyOnEvent_def blueprintOfFirst_def)

lemma instantiateSingleTransform_fold:
  "instantiateSingleTransform this result =
     Inr (CodeSubmittableResult result
       (fst (foldl (reduceStep this) (None, None)
          (filter (\<lambda>r. method' (event r) = ''CodeStored'' \<or> method' (event r) = ''Instantiated'')
             (events result))))
       (snd (foldl (reduceStep this) (None, None)
          (filter (\<lambda>r. method' (event r) = ''CodeStored'' \<or> method' (event r) = ''Instantiated'')
             (events result)))))"
  by (cases "filter (\<lambda>r. method' (event r) = ''CodeStored'' \<or> method' (event r) = ''Instantiated'')
               (events result) = []")
     (simp_all add: instantiateSingleTransform_def applyOnEvent_def reduceRecords_def
        split: prod.splits)

text \<open>
  What \<open>createBlueprint\<close> and the single-phase \<open>instantiate\<close> return as transform
  keeps the events of the expected tags and builds the handles from the data fields:
  the Blueprint from the first data field of a \<open>CodeStored\<close> event, the Contract
  from the second data field of an \<open>Instantiated\<close> event.
\<close>

lemma createBlueprint_projection:
  "resultTransform (createBlueprint U this) result =
     Inr (CodeSubmittableResult result
       (map_option (\<lambda>r. Blueprint (api this) (abi this) (dataAt (data (event r)) 0))
          (firstOption (filter (\<lambda>r. method' (event r) = ''CodeStored'') (events result))))
       None)"
  by (simp add: createBlueprint_def createBlueprintTransform_eq)

lemma instantiateSingle_projection:
  "instantiateSingle U this constructorOrId opts params = Inr s \<Longrightarrow>
     resultTransform s result =
       Inr (CodeSubmittableResult result
         (fst (foldl (reduceStep this) (None, None)
            (filter (\<lambda>r. method' (event r) = ''CodeStored'' \<or> method' (event r) = ''Instantiated'')
               (events result))))
         (snd (foldl (reduceStep this) (None, None)
            (filter (\<lambda>r. method' (event r) = ''CodeStored'' \<or> method' (event r) = ''Instantiated'')
               (events result)))))"
  by (auto simp: instantiateSingle_def Let_def instantiateSingleTransform_fold
      split: sum.splits)

text \<open>
  C4, evaluated where it fails. On a legacy runtime \<open>instantiate\<close> returns the call
  with the dual-phase transform. For a submission with an \<open>ExtrinsicSuccess\<close> and an
  \<open>Instantiated\<close> event that transform throws a \<open>ReferenceError\<close>: no event is
  filtered and no Contract is built from the second data field of the \<open>Instantiated\<close>
  event.
\<close>

theorem dual_phase_projection_throws:
  "instantiateDual exampleUtil (exampleCode runtimeDual4) (ByName ''new'') saltedOptions [] =
     Inr \<lparr>extrinsic =
            \<lparr>callName = ''instantiate'',
             callArgs = [ArgNumber 0, ArgNumber 1000, ArgCodeHash None,
                         ArgU8a [155, 174, 157, 94, 7]]\<rparr>,
          resultTransform = instantiateDualTransform (exampleCode runtimeDual4)\<rparr>
   \<and> instantiateDualTransform (exampleCode runtimeDual4)
       \<lparr>events = [extrinsicSuccess, instantiated [2] [10]]\<rparr> = Inl ReferenceError"
  by (simp add: instantiateDual_def findConstructor_def toU8a_def newConstructor_def
      orZero_def encodeSalt_def saltedOptions_def exampleCode_def exampleAbi_def
      runtimeDual4_def Let_def instantiateDualTransform_def)

subsection \<open>The wrapper of the result\<close>

text \<open>
  The single-phase transform and \<open>createBlueprint\<close> wrap the raw result into
  \<open>CodeSubmittableResult\<close>.
\<close>

lemma instantiateSingleTransform_is_Code:
  "\<exists>b c. instantiateSingleTransform this result = Inr (CodeSubmittableResult result b c)"
  by (simp add: instantiateSingleTransform_fold)

text \<open>The dual-phase transform returns no wrapper at all.\<close>

lemma instantiateDualTransform_throws:
  "instantiateDualTransform this result \<noteq> Inr w"
  by (simp add: instantiateDualTransform_def)

text \<open>
  C5, evaluated where it fails. On a legacy runtime \<open>instantiate\<close> returns the call
  with the dual-phase transform, and for a submission with one \<open>Instantiated\<close> event
  that transform throws a \<open>ReferenceError\<close> instead of wrapping the raw result into a
  \<open>CodeSubmittableResult\<close>.
\<close>

theorem dual_phase_result_wrapper:
  "instantiate exampleUtil (exampleCode runtimeDual5) (ByName ''new'') saltedOptions [] =
     Inr \<lparr>extrinsic =
            \<lparr>callName = ''instantiate'',
             callArgs = [ArgNumber 0, ArgNumber 1000, ArgCodeHash None,
                         ArgU8a ([155, 174, 157, 94] @ EMPTY_SALT), ArgU8a [7]]\<rparr>,
          resultTransform = instantiateDualTransform (exampleCode runtimeDual5)\<rparr>
   \<and> instantiateDualTransform (exampleCode runtimeDual5)
       \<lparr>events = [instantiated [2] [10]]\<rparr> = Inl ReferenceError"
  by (simp add: instantiate_def instantiateDual_def findConstructor_def toU8a_def
      newConstructor_def orZero_def encodeSalt_def saltedOptions_def exampleCode_def
      exampleAbi_def runtimeDual5_def Let_def instantiateDualTransform_def)

subsection \<open>Failures\<close>

lemma findConstructor_error: "findConstructor a s = Inl e \<Longrightarrow> e = ConstructorNotFound"
  by (auto simp: findConstructor_def split: ConstructorOrId.splits option.splits if_splits)

lemma find_Some_member: "find P xs = Some x \<Longrightarrow> x \<in> set xs \<and> P x"
  by (induction xs) (auto split: if_splits)

text \<open>When a selector does not resolve.\<close>

lemma findConstructor_unresolved:
  "(findConstructor a s = Inl ConstructorNotFound) =
     (case s of
        ByConstructor c \<Rightarrow> c \<notin> set (constructors a)
      | ByName n \<Rightarrow> n \<notin> identifier' ` set (constructors a)
      | ByIndex i \<Rightarrow> i < 0 \<or> int (length (constructors a)) \<le> i)"
  by (auto simp: findConstructor_def find_None_iff image_iff
      split: ConstructorOrId.splits option.splits dest: find_Some_member)

text \<open>
  C6. When the selector does not resolve to a constructor of the ABI, \<open>instantiate\<close>
  fails with \<open>ConstructorNotFound\<close> on the single-phase path and on the dual-phase
  path alike: the result is the error, and no call is built.
\<close>

theorem instantiate_unknown_constructor:
  "findConstructor (abi this) constructorOrId = Inl e \<Longrightarrow>
     instantiateSingle U this constructorOrId opts params = Inl ConstructorNotFound
     \<and> instantiateDual U this constructorOrId opts params = Inl ConstructorNotFound
     \<and> instantiate U this constructorOrId opts params = Inl ConstructorNotFound"
  by (frule findConstructor_error)
     (simp add: instantiate_def instantiateSingle_def instantiateDual_def)

theorem instantiate_unknown_constructor_witness:
  "findConstructor (abi (exampleCode runtimeSingle)) (ByName ''missing'') = Inl ConstructorNotFound
   \<and> instantiate exampleUtil (exampleCode runtimeSingle) (ByName ''missing'') saltedOptions []
       = Inl ConstructorNotFound
   \<and> instantiate exampleUtil (exampleCode runtimeDual4) (ByIndex 1) saltedOptions []
       = Inl ConstructorNotFound"
proof -
  have a: "findConstructor (abi (exampleCode runtimeSingle)) (ByName ''missing'')
             = Inl ConstructorNotFound"
    by (simp add: findConstructor_def exampleCode_def exampleAbi_def newConstructor_def)
  have b: "findConstructor (abi (exampleCode runtimeDual4)) (ByIndex 1)
             = Inl ConstructorNotFound"
    by (simp add: findConstructor_def exampleCode_def exampleAbi_def)
  from a instantiate_unknown_constructor [OF a] instantiate_unknown_constructor [OF b]
  show ?thesis by simp
qed

text \<open>
  C8. When neither the WASM embedded in the ABI nor the supplied bytes are recognised
  as WASM, the constructor fails with \<open>InvalidCodeBundle\<close>; no object is built, so no
  call can be built from it.
\<close>

theorem new_Code_invalid_bundle:
  "\<not> isWasm U (project_source_wasm abi0) \<Longrightarrow> \<not> isWasm U (u8aToU8a U wasm)
   \<Longrightarrow> new_Code U api0 abi0 wasm = Inl InvalidCodeBundle"
  by (simp add: new_Code_def)

theorem new_Code_invalid_bundle_witness:
  "\<not> isWasm exampleUtil (project_source_wasm exampleAbi)
   \<and> \<not> isWasm exampleUtil (u8aToU8a exampleUtil (FromU8a [1, 2, 3]))
   \<and> new_Code exampleUtil runtimeSingle exampleAbi (FromU8a [1, 2, 3]) = Inl InvalidCodeBundle"
proof -
  have a: "\<not> isWasm exampleUtil (project_source_wasm exampleAbi)"
    by (simp add: exampleUtil_def exampleAbi_def)
  have b: "\<not> isWasm exampleUtil (u8aToU8a exampleUtil (FromU8a [1, 2, 3]))"
    by (simp add: exampleUtil_def)
  from a b new_Code_invalid_bundle [OF a b] show ?thesis by simp
qed

text \<open>An object that was built holds bytes recognised as WASM.\<close>

lemma new_Code_isWasm: "new_Code U api0 abi0 wasm = Inr this \<Longrightarrow> isWasm U (code this)"
  by (auto simp: new_Code_def Let_def split: if_splits)

subsection \<open>The calls that carry the code\<close>

text \<open>
  C7. For a constructor that resolves and parameters that encode, the single-phase path
  returns one call, \<open>instantiateWithCode\<close>, whose arguments are in this order the value,
  the gas limit, the code with its compact length prefix, the encoded constructor
  arguments and the encoded salt. \<open>createBlueprint\<close> passes the code with its compact
  length prefix as well.
\<close>

theorem single_phase_call_shape:
  "findConstructor (abi this) constructorOrId = Inr c \<Longrightarrow> encodeArgs c params = Some bytes \<Longrightarrow>
     instantiateSingle U this constructorOrId opts params =
       Inr \<lparr>extrinsic =
              \<lparr>callName = ''instantiateWithCode'',
               callArgs = [ArgNumber (orZero (value' opts)),
                           ArgNumber (orZero (gasLimit opts)),
                           ArgU8a (compactAddLength U (code this)),
                           ArgU8a bytes,
                           ArgU8a (encodeSalt (salt opts))]\<rparr>,
            resultTransform = instantiateSingleTransform this\<rparr>
     \<and> extrinsic (createBlueprint U this) =
         \<lparr>callName = ''putCode'', callArgs = [ArgU8a (compactAddLength U (code this))]\<rparr>"
  by (simp add: instantiateSingle_def createBlueprint_def toU8a_def)

theorem single_phase_call_shape_witness:
  "instantiateSingle exampleUtil (exampleCode runtimeSingle) (ByName ''new'') saltedOptions [] =
     Inr \<lparr>extrinsic =
            \<lparr>callName = ''instantiateWithCode'',
             callArgs = [ArgNumber 0, ArgNumber 1000,
                         ArgU8a [32, 0, 97, 115, 109, 1, 0, 0, 0],
                         ArgU8a [155, 174, 157, 94],
                         ArgU8a [7]]\<rparr>,
          resultTransform = instantiateSingleTransform (exampleCode runtimeSingle)\<rparr>
   \<and> extrinsic (createBlueprint exampleUtil (exampleCode runtimeSingle)) =
       \<lparr>callName = ''putCode'', callArgs = [ArgU8a [32, 0, 97, 115, 109, 1, 0, 0, 0]]\<rparr>"
  using single_phase_call_shape [where U = exampleUtil and opts = saltedOptions
      and this = "exampleCode runtimeSingle", OF findConstructor_example encodeArgs_example]
  by (simp add: orZero_def encodeSalt_def saltedOptions_def exampleUtil_def exampleCode_def
      exampleWasm_def)

subsection \<open>No matching event\<close>

text \<open>
  On the single-phase path and for \<open>createBlueprint\<close>, a submission without an event
  of an expected tag (in particular one without any event) gives, without an error, a
  result whose code handle and contract handle are both unset.
\<close>

lemma single_phase_no_matching_event:
  assumes "instantiateSingle U this constructorOrId opts params = Inr s"
    and "\<forall>r \<in> set (events result).
           method' (event r) \<noteq> ''CodeStored'' \<and> method' (event r) \<noteq> ''Instantiated''"
  shows "resultTransform s result = Inr (CodeSubmittableResult result None None)"
proof -
  from assms(2)
  have "filter (\<lambda>r. method' (event r) \<in> set [''CodeStored'', ''Instantiated''])
          (events result) = []"
    by (auto simp: filter_empty_conv)
  then have "instantiateSingleTransform this result
      = Inr (CodeSubmittableResult result None None)"
    by (simp add: instantiateSingleTransform_def applyOnEvent_def)
  with assms(1) show ?thesis
    by (auto simp: instantiateSingle_def Let_def split: sum.splits)
qed

lemma createBlueprint_no_matching_event:
  assumes "\<forall>r \<in> set (events result). method' (event r) \<noteq> ''CodeStored''"
  shows "resultTransform (createBlueprint U this) result
           = Inr (CodeSubmittableResult result None None)"
proof -
  from assms
  have "filter (\<lambda>r. method' (event r) \<in> set [''CodeStored'']) (events result) = []"
    by (auto simp: filter_empty_conv)
  then show ?thesis
    by (simp add: createBlueprint_def createBlueprintTransform_def applyOnEvent_def)
qed

text \<open>
  C9, evaluated where it fails. On a legacy runtime \<open>instantiate\<close> returns the call
  with the dual-phase transform. For a submission without any event, and for one whose
  only event is an \<open>ExtrinsicSuccess\<close>, that transform throws a \<open>ReferenceError\<close>
  instead of returning a result with both handles unset.
\<close>

theorem dual_phase_no_event_throws:
  "instantiate exampleUtil (exampleCode runtimeDual4) (ByIndex 0) plainOptions [] =
     Inr \<lparr>extrinsic =
            \<lparr>callName = ''instantiate'',
             callArgs = [ArgNumber 5, ArgNumber 0, ArgCodeHash None,
                         ArgU8a ([155, 174, 157, 94] @ EMPTY_SALT)]\<rparr>,
          resultTransform = instantiateDualTransform (exampleCode runtimeDual4)\<rparr>
   \<and> instantiateDualTransform (exampleCode runtimeDual4) \<lparr>events = []\<rparr>
       = Inl ReferenceError
   \<and> instantiateDualTransform (exampleCode runtimeDual4) \<lparr>events = [extrinsicSuccess]\<rparr>
       = Inl ReferenceError"
  by (simp add: instantiate_def instantiateDual_def findConstructor_def toU8a_def
      newConstructor_def orZero_def encodeSalt_def plainOptions_def exampleCode_def
      exampleAbi_def runtimeDual4_def Let_def instantiateDualTransform_def)

subsection \<open>The tx table\<close>

lemma foldl_registerConstructor:
  "foldl (registerConstructor U) m cs n =
     (case m n of
        Some c \<Rightarrow> Some c
      | None \<Rightarrow>
          if n \<in> set Object_prototype_keys then None
          else find (\<lambda>c. stringCamelCase U (identifier' c) = n) cs)"
proof (induction cs arbitrary: m)
  case Nil
  show ?case by (simp split: option.splits)
next
  case (Cons c cs)
  have "foldl (registerConstructor U) m (c # cs) n =
      (case registerConstructor U m c n of
         Some c' \<Rightarrow> Some c'
       | None \<Rightarrow>
           if n \<in> set Object_prototype_keys then None
           else find (\<lambda>c. stringCamelCase U (identifier' c) = n) cs)"
    by (simp add: Cons.IH)
  then show ?case
    unfolding registerConstructor_def isUndefined_tx_def Let_def
    by (auto split: option.splits)
qed

text \<open>
  The table the constructor builds. Under a name that a plain object does not inherit,
  the entry is the first constructor of the ABI whose identifier normalises to that
  name; a later constructor of the same normalised name never replaces it. Under an
  inherited name there is no entry at all.
\<close>

lemma tx_table_lookup:
  "new_Code U api0 abi0 wasm = Inr this \<Longrightarrow>
     tx this n =
       (if n \<in> set Object_prototype_keys then None
        else find (\<lambda>c. stringCamelCase U (identifier' c) = n) (constructors abi0))"
  by (auto simp: new_Code_def Let_def foldl_registerConstructor split: if_splits)

text \<open>
  C10, evaluated where it fails. The ABI has the constructors \<open>to_string\<close> and
  \<open>toString\<close>, which both normalise to \<open>toString\<close>. The read \<open>this.#tx['toString']\<close>
  finds the member every object inherits, so the test for \<open>undefined\<close> fails for the
  first constructor as for the second, and the table is left without any entry:
  the entry of the first constructor is not kept, it is never made.
\<close>

theorem tx_table_inherited_name:
  "new_Code exampleUtil runtimeSingle toStringAbi Nullish =
     Inr \<lparr>api = runtimeSingle, abi = toStringAbi, code = exampleWasm,
          tx = Map.empty, codeHash = None\<rparr>"
  by (simp add: new_Code_def exampleUtil_def toStringAbi_def exampleWasm_def
      registerConstructor_def isUndefined_tx_def Object_prototype_keys_def Let_def)

end
